theory Spec2Isabelle
  imports Complex_Main "HOL-Library.Sublist"
begin

section \<open>Values of the script\<close>

text \<open>
  The script \<^verbatim>\<open>run_pointnet.py\<close> drives a point-cloud segmentation network. Tensors are
  nested lists: a point is its list of coordinates, a cloud a list of points, the output
  of the network one row of class scores per point of every sample of the batch, the
  labels one integer per point. Python floats are idealised as reals. An exception is
  the left component of a sum.
\<close>

datatype pyerror =
  ZeroDivisionError | IndexError | ValueError | OSError | SystemExit int

type_synonym point = "real list"
type_synonym cloud = "point list"
type_synonym logits = "real list list list"
type_synonym labels = "int list list"
type_synonym sample = "cloud \<times> int list"
type_synonym batch = "cloud list \<times> labels"

datatype device = cuda | cpu

text \<open>Moving a tensor to a device keeps its values.\<close>

definition to_device :: "device \<Rightarrow> 'a \<Rightarrow> 'a" where
  "to_device dev x = x"

fun traverse :: "('a \<Rightarrow> pyerror + 'b) \<Rightarrow> 'a list \<Rightarrow> pyerror + 'b list" where
  "traverse f [] = Inr []"
| "traverse f (x # xs) =
     (case f x of
        Inl e \<Rightarrow> Inl e
      | Inr y \<Rightarrow> (case traverse f xs of Inl e \<Rightarrow> Inl e | Inr ys \<Rightarrow> Inr (y # ys)))"

subsection \<open>Arg-max over the class dimension\<close>

text \<open>
  Modelled from the spec: the arg-max over the class dimension is an operation of the
  framework, not under src/. \<^verbatim>\<open>outputs.argmax(dim=2)\<close> gives for every point the index
  of the first maximal class score; the framework refuses a class dimension of size zero.
\<close>

fun argmax_from :: "real \<Rightarrow> nat \<Rightarrow> nat \<Rightarrow> real list \<Rightarrow> nat" where
  "argmax_from best bi i [] = bi"
| "argmax_from best bi i (x # xs) =
     (if best < x then argmax_from x i (Suc i) xs else argmax_from best bi (Suc i) xs)"

definition argmax :: "real list \<Rightarrow> pyerror + int" where
  "argmax row = (case row of [] \<Rightarrow> Inl IndexError | x # xs \<Rightarrow> Inr (int (argmax_from x 0 1 xs)))"

definition argmax_dim2 :: "logits \<Rightarrow> pyerror + labels" where
  "argmax_dim2 outputs = traverse (traverse argmax) outputs"

subsection \<open>Metrics\<close>

text \<open>
  A metric over no element is the float not-a-number, which is not a real: a score is
  either a real or \<open>NaN\<close>.
\<close>

datatype score = Score real | NaN

definition average :: "real list \<Rightarrow> score" where
  "average vs = (if vs = [] then NaN else Score (sum_list vs / real (length vs)))"

definition unique_labels :: "int list \<Rightarrow> int list \<Rightarrow> int list" where
  "unique_labels y_true y_pred = sort (remdups (y_true @ y_pred))"

definition tp_sum :: "int \<Rightarrow> int list \<Rightarrow> int list \<Rightarrow> nat" where
  "tp_sum cl y_true y_pred = length (filter (\<lambda>(t, p). t = cl \<and> p = cl) (zip y_true y_pred))"

definition pred_sum :: "int \<Rightarrow> int list \<Rightarrow> nat" where
  "pred_sum cl y_pred = length (filter (\<lambda>p. p = cl) y_pred)"

definition true_sum :: "int \<Rightarrow> int list \<Rightarrow> nat" where
  "true_sum cl y_true = length (filter (\<lambda>t. t = cl) y_true)"

definition prf_divide :: "nat \<Rightarrow> nat \<Rightarrow> real" where
  "prf_divide numerator denominator =
     (if denominator = 0 then 0 else real numerator / real denominator)"

text \<open>
  Modelled from the spec: \<^verbatim>\<open>precision_score\<close>, \<^verbatim>\<open>recall_score\<close> and
  \<^verbatim>\<open>accuracy_score\<close> are imported from a metrics library and are not under src/. Macro
  averaging computes the metric per class and averages unweighted by class frequency;
  the classes are the labels present in the true or the predicted list; a class with an
  empty denominator counts as 0; lists of different lengths are refused.
\<close>

definition precision_score :: "int list \<Rightarrow> int list \<Rightarrow> pyerror + score" where
  "precision_score y_true y_pred =
     (if length y_true \<noteq> length y_pred then Inl ValueError
      else Inr (average (map (\<lambda>cl. prf_divide (tp_sum cl y_true y_pred) (pred_sum cl y_pred))
                             (unique_labels y_true y_pred))))"

definition recall_score :: "int list \<Rightarrow> int list \<Rightarrow> pyerror + score" where
  "recall_score y_true y_pred =
     (if length y_true \<noteq> length y_pred then Inl ValueError
      else Inr (average (map (\<lambda>cl. prf_divide (tp_sum cl y_true y_pred) (true_sum cl y_true))
                             (unique_labels y_true y_pred))))"

definition accuracy_score :: "int list \<Rightarrow> int list \<Rightarrow> pyerror + score" where
  "accuracy_score y_true y_pred =
     (if length y_true \<noteq> length y_pred then Inl ValueError
      else Inr (average (map (\<lambda>(t, p). if t = p then 1 else 0) (zip y_true y_pred))))"

subsection \<open>Visualisation\<close>

text \<open>
  \<^verbatim>\<open>visualize_predictions\<close> shows one figure per stored cloud, each with two scatter
  calls. The label lists the script hands over hold one integer per point of the pass, so
  the colour argument \<^verbatim>\<open>c=\<close> of a scatter call, the \<open>i\<close>-th element of a label list,
  is one integer. A figure holds the two scatter calls with the arguments the code passes.
\<close>

record scatter =
  x_col :: "real list"
  y_col :: "real list"
  z_col :: "real list"
  c_arg :: int
  marker :: string
  label :: string

record figure =
  sample_no :: nat
  series :: "scatter list"

fun column :: "nat \<Rightarrow> cloud \<Rightarrow> pyerror + real list" where
  "column k [] = Inr []"
| "column k (pt # pts) =
     (if k < length pt
      then (case column k pts of Inl e \<Rightarrow> Inl e | Inr r \<Rightarrow> Inr (pt ! k # r))
      else Inl IndexError)"

text \<open>
  Modelled from the spec: the plotting library is not under src/. A scatter call takes
  one number as the colours of its points when there is exactly one point, and refuses
  it for any other number of points.
\<close>

definition ax_scatter ::
  "real list \<Rightarrow> real list \<Rightarrow> real list \<Rightarrow> int \<Rightarrow> string \<Rightarrow> string \<Rightarrow> pyerror + scatter" where
  "ax_scatter x y z col mark lab =
     (if length x = 1
      then Inr \<lparr>x_col = x, y_col = y, z_col = z, c_arg = col, marker = mark, label = lab\<rparr>
      else Inl ValueError)"

definition plot_sample :: "nat \<Rightarrow> cloud \<Rightarrow> int \<Rightarrow> int \<Rightarrow> pyerror + figure" where
  "plot_sample i pc true pred =
     (case column 0 pc of
        Inl e \<Rightarrow> Inl e
      | Inr x \<Rightarrow>
          (case column 1 pc of
             Inl e \<Rightarrow> Inl e
           | Inr y \<Rightarrow>
               (case column 2 pc of
                  Inl e \<Rightarrow> Inl e
                | Inr z \<Rightarrow>
                    (case ax_scatter x y z true ''o'' ''True Labels'' of
                       Inl e \<Rightarrow> Inl e
                     | Inr s1 \<Rightarrow>
                         (case ax_scatter x y z pred ''x'' ''Predicted Labels'' of
                            Inl e \<Rightarrow> Inl e
                          | Inr s2 \<Rightarrow> Inr \<lparr>sample_no = i, series = [s1, s2]\<rparr>)))))"

fun visualize_loop ::
  "nat list \<Rightarrow> cloud list \<Rightarrow> int list \<Rightarrow> int list \<Rightarrow> figure list
     \<Rightarrow> (pyerror + unit) \<times> figure list" where
  "visualize_loop [] point_clouds true_labels predicted_labels shown = (Inr (), shown)"
| "visualize_loop (i # rest) point_clouds true_labels predicted_labels shown =
     (if i < length true_labels \<and> i < length predicted_labels
      then (case plot_sample i (point_clouds ! i) (true_labels ! i) (predicted_labels ! i) of
              Inl e \<Rightarrow> (Inl e, shown)
            | Inr fig \<Rightarrow>
                visualize_loop rest point_clouds true_labels predicted_labels (shown @ [fig]))
      else (Inl IndexError, shown))"

definition visualize_predictions ::
  "cloud list \<Rightarrow> int list \<Rightarrow> int list \<Rightarrow> (pyerror + unit) \<times> figure list" where
  "visualize_predictions point_clouds true_labels predicted_labels =
     visualize_loop [0..<length point_clouds] point_clouds true_labels predicted_labels []"

subsection \<open>The evaluation routine\<close>

text \<open>
  The state the script works on: the parameters of the network, the gradients, the state
  of the optimizer, the mode flag of the module (\<^verbatim>\<open>model.train()\<close>,
  \<^verbatim>\<open>model.eval()\<close>), the gradient-tracking flag, the number of optimizer steps taken,
  the number of shuffles drawn, and what was shown and printed.
\<close>

datatype printed =
  Line string
| ModelRepr
| Shape string "nat list"
| Loss real
| EpochLine nat real score score score
| ValidationLine real score score score
| TestLine real score score score

record ('p, 'g, 'o) world =
  params :: 'p
  grads :: 'g
  opt_state :: 'o
  training :: bool
  grad_enabled :: bool
  steps :: nat
  rng :: nat
  figures :: "figure list"
  stdout :: "printed list"

record accum =
  losses :: "real list"
  all_labels :: "int list list"
  all_preds :: "int list list"
  point_clouds :: "cloud list"

text \<open>
  The forward pass of the network is a function of the parameters, the two mode flags and
  the batch; of the pair it returns the code keeps the first component only, which is
  what \<open>model\<close> stands for here. The loop of the \<^verbatim>\<open>with torch.no_grad()\<close> block:
\<close>

fun eval_batches ::
  "('p \<Rightarrow> bool \<Rightarrow> bool \<Rightarrow> cloud list \<Rightarrow> logits) \<Rightarrow> (logits \<Rightarrow> labels \<Rightarrow> real) \<Rightarrow> device
     \<Rightarrow> ('p, 'g, 'o) world \<Rightarrow> batch list \<Rightarrow> accum \<Rightarrow> pyerror + accum" where
  "eval_batches model criterion dev w [] acc = Inr acc"
| "eval_batches model criterion dev w ((data0, labels0) # rest) acc =
     (let data = to_device dev data0;
          labels = to_device dev labels0;
          outputs = model (params w) (training w) (grad_enabled w) data;
          loss = criterion outputs labels
      in case argmax_dim2 outputs of
           Inl e \<Rightarrow> Inl e
         | Inr preds \<Rightarrow>
             eval_batches model criterion dev w rest
               (acc\<lparr>losses := losses acc @ [loss],
                    all_preds := all_preds acc @ preds,
                    all_labels := all_labels acc @ labels,
                    point_clouds := point_clouds acc @ data\<rparr>))"

definition flatten :: "'a list list \<Rightarrow> 'a list" where
  "flatten rows = concat rows"

definition evaluate_model ::
  "('p \<Rightarrow> bool \<Rightarrow> bool \<Rightarrow> cloud list \<Rightarrow> logits) \<Rightarrow> (logits \<Rightarrow> labels \<Rightarrow> real) \<Rightarrow> device
     \<Rightarrow> ('p, 'g, 'o) world \<Rightarrow> batch list \<Rightarrow> bool
     \<Rightarrow> (pyerror + real \<times> score \<times> score \<times> score) \<times> ('p, 'g, 'o) world" where
  "evaluate_model model criterion dev w loader visualize =
     (let w1 = w\<lparr>training := False\<rparr>;
          w2 = w1\<lparr>grad_enabled := False\<rparr>;
          looped = eval_batches model criterion dev w2 loader
                     \<lparr>losses = [], all_labels = [], all_preds = [], point_clouds = []\<rparr>;
          w3 = w2\<lparr>grad_enabled := grad_enabled w1\<rparr>
      in case looped of
           Inl e \<Rightarrow> (Inl e, w3)
         | Inr acc \<Rightarrow>
             if length (losses acc) = 0 then (Inl ZeroDivisionError, w3)
             else
               let avg_loss = sum_list (losses acc) / real (length (losses acc));
                   flat_labels = flatten (all_labels acc);
                   flat_preds = flatten (all_preds acc)
               in (case precision_score flat_labels flat_preds of
                    Inl e \<Rightarrow> (Inl e, w3)
                  | Inr precision \<Rightarrow>
                 (case recall_score flat_labels flat_preds of
                    Inl e \<Rightarrow> (Inl e, w3)
                  | Inr recall \<Rightarrow>
                 (case accuracy_score flat_labels flat_preds of
                    Inl e \<Rightarrow> (Inl e, w3)
                  | Inr accuracy \<Rightarrow>
                      if visualize
                      then (case visualize_predictions (point_clouds acc) flat_labels flat_preds of
                              (Inl e, shown) \<Rightarrow> (Inl e, w3\<lparr>figures := figures w3 @ shown\<rparr>)
                            | (Inr u, shown) \<Rightarrow>
                                (Inr (avg_loss, precision, recall, accuracy),
                                 w3\<lparr>figures := figures w3 @ shown\<rparr>))
                      else (Inr (avg_loss, precision, recall, accuracy), w3)))))"

subsection \<open>Batching\<close>

text \<open>
  Modelled from the spec: the loader class is a utility of the framework and is not under
  src/. A loader wraps a dataset view, shuffles when asked to (the train loader only) and
  yields groups of at most \<open>batch_size\<close> samples, the last group holding the rest. It
  refuses a batch size that is not positive, and a shuffled view of no sample.
\<close>

record loader =
  dataset :: "sample list"
  bsize :: nat
  shuffle :: bool

definition DataLoader :: "sample list \<Rightarrow> int \<Rightarrow> bool \<Rightarrow> pyerror + loader" where
  "DataLoader ds bs sh =
     (if sh \<and> ds = [] then Inl ValueError
      else if bs \<le> 0 then Inl ValueError
      else Inr \<lparr>dataset = ds, bsize = nat bs, shuffle = sh\<rparr>)"

function chunks :: "nat \<Rightarrow> 'a list \<Rightarrow> 'a list list" where
  "chunks b xs = (if b = 0 \<or> xs = [] then [] else take b xs # chunks b (drop b xs))"
  by pat_completeness auto
termination
  by (relation "measure (\<lambda>(b, xs). length xs)") auto

declare chunks.simps [simp del]

definition index_dataset :: "sample list \<Rightarrow> nat \<Rightarrow> pyerror + sample" where
  "index_dataset ds i = (if i < length ds then Inr (ds ! i) else Inl IndexError)"

definition collate :: "sample list \<Rightarrow> batch" where
  "collate picked = (map fst picked, map snd picked)"

text \<open>
  One pass over a loader. The order of a shuffled pass is the permutation the random
  generator of the framework draws, a function of the number of draws made so far.
\<close>

definition iterate :: "(nat \<Rightarrow> nat \<Rightarrow> nat list) \<Rightarrow> loader \<Rightarrow> nat \<Rightarrow> pyerror + batch list" where
  "iterate randperm ld seed =
     (let n = length (dataset ld);
          order = (if shuffle ld then randperm seed n else [0..<n])
      in case traverse (index_dataset (dataset ld)) order of
           Inl e \<Rightarrow> Inl e
         | Inr picked \<Rightarrow> Inr (map collate (chunks (bsize ld) picked)))"

subsection \<open>The framework and the absent modules\<close>

text \<open>
  What the script imports and does not define is a parameter: the directory listing, the
  dataset class, the availability of an accelerator, the random permutations, the network
  (\<open>get_model\<close> gives its initial parameters, \<open>forward\<close> its forward pass), the loss,
  back-propagation and the update rule of an optimizer.
\<close>

datatype optim_algorithm = Adam | SGD

record optimizer =
  algorithm :: optim_algorithm
  lr :: real
  weight_decay :: real

record ('p, 'g, 'o) framework =
  listdir :: "string \<Rightarrow> pyerror + string list"
  Pointnet2dataset :: "string \<Rightarrow> string list \<Rightarrow> int \<Rightarrow> bool \<Rightarrow> string \<Rightarrow> pyerror + sample list"
  cuda_is_available :: bool
  randperm :: "nat \<Rightarrow> nat \<Rightarrow> nat list"
  get_model :: "int \<Rightarrow> 'p"
  forward :: "'p \<Rightarrow> bool \<Rightarrow> bool \<Rightarrow> cloud list \<Rightarrow> logits"
  get_loss :: "logits \<Rightarrow> labels \<Rightarrow> real"
  no_grads :: 'g
  zero_grad :: "'g \<Rightarrow> 'g"
  backward :: "'p \<Rightarrow> cloud list \<Rightarrow> labels \<Rightarrow> 'g \<Rightarrow> 'g"
  optim_init :: 'o
  optim_step :: "optim_algorithm \<Rightarrow> real \<Rightarrow> real \<Rightarrow> 'p \<Rightarrow> 'g \<Rightarrow> 'o \<Rightarrow> 'p \<times> 'o"

subsection \<open>The training loop\<close>

text \<open>
  The printed shape of a tensor; the inner sizes of a tensor without rows print as 0.
\<close>

definition shape2 :: "'a list list \<Rightarrow> nat list" where
  "shape2 t = [length t, (case t of [] \<Rightarrow> 0 | r # _ \<Rightarrow> length r)]"

definition shape3 :: "'a list list list \<Rightarrow> nat list" where
  "shape3 t = length t # (case t of [] \<Rightarrow> [0, 0] | r # _ \<Rightarrow> shape2 r)"

text \<open>The body of the inner loop: one batch, one optimizer step.\<close>

definition train_step ::
  "('p, 'g, 'o) framework \<Rightarrow> optimizer \<Rightarrow> device \<Rightarrow> batch \<Rightarrow> ('p, 'g, 'o) world
     \<Rightarrow> ('p, 'g, 'o) world" where
  "train_step F opt dev b w =
     (let data = to_device dev (fst b);
          labels = to_device dev (snd b);
          w1 = w\<lparr>grads := zero_grad F (grads w)\<rparr>;
          outputs = forward F (params w1) (training w1) (grad_enabled w1) data;
          w2 = w1\<lparr>stdout := stdout w1 @
                 [Shape ''OUTPUTS SHAPE'' (shape3 outputs), Shape ''LABELS SHAPE'' (shape2 labels)]\<rparr>;
          loss = get_loss F outputs labels;
          w3 = w2\<lparr>stdout := stdout w2 @ [Loss loss]\<rparr>;
          w4 = w3\<lparr>grads := backward F (params w3) data labels (grads w3)\<rparr>;
          updated = optim_step F (algorithm opt) (lr opt) (weight_decay opt)
                      (params w4) (grads w4) (opt_state w4)
      in w4\<lparr>params := fst updated, opt_state := snd updated, steps := Suc (steps w4)\<rparr>)"

fun train_batches ::
  "('p, 'g, 'o) framework \<Rightarrow> optimizer \<Rightarrow> device \<Rightarrow> batch list \<Rightarrow> ('p, 'g, 'o) world
     \<Rightarrow> ('p, 'g, 'o) world" where
  "train_batches F opt dev [] w = w"
| "train_batches F opt dev (b # rest) w = train_batches F opt dev rest (train_step F opt dev b w)"

text \<open>Drawing the batches of one pass advances the random generator of a shuffled loader.\<close>

definition draw ::
  "('p, 'g, 'o) framework \<Rightarrow> loader \<Rightarrow> ('p, 'g, 'o) world
     \<Rightarrow> (pyerror + batch list) \<times> ('p, 'g, 'o) world" where
  "draw F ld w =
     (iterate (randperm F) ld (rng w), if shuffle ld then w\<lparr>rng := Suc (rng w)\<rparr> else w)"

text \<open>The training part of one epoch: \<^verbatim>\<open>model.train()\<close> and the loop over the train loader.\<close>

definition train_one_epoch ::
  "('p, 'g, 'o) framework \<Rightarrow> optimizer \<Rightarrow> device \<Rightarrow> loader \<Rightarrow> ('p, 'g, 'o) world
     \<Rightarrow> (pyerror + unit) \<times> ('p, 'g, 'o) world" where
  "train_one_epoch F opt dev train_loader w =
     (case draw F train_loader (w\<lparr>training := True\<rparr>) of
        (Inl e, w1) \<Rightarrow> (Inl e, w1)
      | (Inr batches, w1) \<Rightarrow> (Inr (), train_batches F opt dev batches w1))"

definition evaluate_loader ::
  "('p, 'g, 'o) framework \<Rightarrow> device \<Rightarrow> loader \<Rightarrow> ('p, 'g, 'o) world
     \<Rightarrow> (pyerror + real \<times> score \<times> score \<times> score) \<times> ('p, 'g, 'o) world" where
  "evaluate_loader F dev ld w =
     (case draw F ld w of
        (Inl e, w1) \<Rightarrow> (Inl e, w1)
      | (Inr batches, w1) \<Rightarrow> evaluate_model (forward F) (get_loss F) dev w1 batches False)"

definition run_epoch ::
  "('p, 'g, 'o) framework \<Rightarrow> optimizer \<Rightarrow> device \<Rightarrow> loader \<Rightarrow> loader \<Rightarrow> nat
     \<Rightarrow> ('p, 'g, 'o) world \<Rightarrow> (pyerror + unit) \<times> ('p, 'g, 'o) world" where
  "run_epoch F opt dev train_loader val_loader epoch_no w =
     (case train_one_epoch F opt dev train_loader w of
        (Inl e, w1) \<Rightarrow> (Inl e, w1)
      | (Inr u, w1) \<Rightarrow>
     (case evaluate_loader F dev train_loader w1 of
        (Inl e, w2) \<Rightarrow> (Inl e, w2)
      | (Inr train, w2) \<Rightarrow>
     (case evaluate_loader F dev val_loader w2 of
        (Inl e, w3) \<Rightarrow> (Inl e, w3)
      | (Inr val, w3) \<Rightarrow>
          (Inr (),
           w3\<lparr>stdout := stdout w3 @
                [EpochLine epoch_no (fst train) (fst (snd train)) (fst (snd (snd train)))
                   (snd (snd (snd train))),
                 ValidationLine (fst val) (fst (snd val)) (fst (snd (snd val)))
                   (snd (snd (snd val)))]\<rparr>))))"

fun epochs ::
  "('p, 'g, 'o) framework \<Rightarrow> optimizer \<Rightarrow> device \<Rightarrow> loader \<Rightarrow> loader \<Rightarrow> nat list
     \<Rightarrow> ('p, 'g, 'o) world \<Rightarrow> (pyerror + unit) \<times> ('p, 'g, 'o) world" where
  "epochs F opt dev train_loader val_loader [] w = (Inr (), w)"
| "epochs F opt dev train_loader val_loader (epoch_no # rest) w =
     (case run_epoch F opt dev train_loader val_loader epoch_no w of
        (Inl e, w1) \<Rightarrow> (Inl e, w1)
      | (Inr u, w1) \<Rightarrow> epochs F opt dev train_loader val_loader rest w1)"

subsection \<open>The settings and \<open>main\<close>\<close>

record args =
  use_cpu :: bool
  gpu :: string
  batch_size :: int
  model :: string
  epoch :: int
  learning_rate :: real
  num_points :: int
  optimizer :: string
  log_dir :: "string option"
  decay_rate :: real
  use_normals :: bool

text \<open>The optimizer \<open>main\<close> builds from the settings.\<close>

definition main_optimizer :: "args \<Rightarrow> optimizer" where
  "main_optimizer a = \<lparr>algorithm = Adam, lr = learning_rate a, weight_decay = decay_rate a\<rparr>"

definition main ::
  "('p, 'g, 'o) framework \<Rightarrow> args \<Rightarrow> (pyerror + unit) \<times> ('p, 'g, 'o) world option" where
  "main F a =
     (let dataset_path = ''2023_RCSE_Centerline'' in
      case listdir F dataset_path of
        Inl e \<Rightarrow> (Inl e, None)
      | Inr file_names \<Rightarrow>
     (case Pointnet2dataset F dataset_path file_names (num_points a) True ''train'' of
        Inl e \<Rightarrow> (Inl e, None)
      | Inr train_dataset \<Rightarrow>
     (case Pointnet2dataset F dataset_path file_names (num_points a) False ''val'' of
        Inl e \<Rightarrow> (Inl e, None)
      | Inr val_dataset \<Rightarrow>
     (case Pointnet2dataset F dataset_path file_names (num_points a) False ''test'' of
        Inl e \<Rightarrow> (Inl e, None)
      | Inr test_dataset \<Rightarrow>
     (case DataLoader train_dataset (batch_size a) True of
        Inl e \<Rightarrow> (Inl e, None)
      | Inr train_loader \<Rightarrow>
     (case DataLoader val_dataset (batch_size a) False of
        Inl e \<Rightarrow> (Inl e, None)
      | Inr val_loader \<Rightarrow>
     (case DataLoader test_dataset (batch_size a) False of
        Inl e \<Rightarrow> (Inl e, None)
      | Inr test_loader \<Rightarrow>
          (let dev = (if cuda_is_available F \<and> \<not> use_cpu a then cuda else cpu);
               opt = main_optimizer a;
               w0 = \<lparr>params = to_device dev (get_model F 2), grads = no_grads F,
                     opt_state = optim_init F, training = True, grad_enabled = True,
                     steps = 0, rng = 0, figures = [],
                     stdout = [Line ''model successfully initialized'', ModelRepr]\<rparr>
           in case epochs F opt dev train_loader val_loader [0..<nat (epoch a)] w0 of
                (Inl e, w1) \<Rightarrow> (Inl e, Some w1)
              | (Inr u, w1) \<Rightarrow>
                  (case evaluate_loader F dev test_loader w1 of
                     (Inl e, w2) \<Rightarrow> (Inl e, Some w2)
                   | (Inr test, w2) \<Rightarrow>
                       (Inr (),
                        Some (w2\<lparr>stdout := stdout w2 @
                                [TestLine (fst test) (fst (snd test)) (fst (snd (snd test)))
                                   (snd (snd (snd test)))]\<rparr>)))))))))))"

subsection \<open>The command line\<close>

text \<open>
  \<^verbatim>\<open>parse_args\<close> declares eleven options, one \<^verbatim>\<open>add_argument\<close> call each: the option
  string, how its value is read, and the default.
\<close>

datatype argtype = store_true | type_int | type_float | type_str

datatype argval = BoolV bool | IntV int | FloatV real | StrV string | NoneV

record argument =
  flag :: string
  atype :: argtype
  dflt :: argval

definition arguments :: "argument list" where
  "arguments =
     [\<lparr>flag = ''--use_cpu'', atype = store_true, dflt = BoolV False\<rparr>,
      \<lparr>flag = ''--gpu'', atype = type_str, dflt = StrV ''0''\<rparr>,
      \<lparr>flag = ''--batch_size'', atype = type_int, dflt = IntV 24\<rparr>,
      \<lparr>flag = ''--model'', atype = type_str, dflt = StrV ''pointnet2_cls_ssg''\<rparr>,
      \<lparr>flag = ''--epoch'', atype = type_int, dflt = IntV 100\<rparr>,
      \<lparr>flag = ''--learning_rate'', atype = type_float, dflt = FloatV (1 / 1000)\<rparr>,
      \<lparr>flag = ''--num_points'', atype = type_int, dflt = IntV 1024\<rparr>,
      \<lparr>flag = ''--optimizer'', atype = type_str, dflt = StrV ''Adam''\<rparr>,
      \<lparr>flag = ''--log_dir'', atype = type_str, dflt = NoneV\<rparr>,
      \<lparr>flag = ''--decay_rate'', atype = type_float, dflt = FloatV (1 / 10000)\<rparr>,
      \<lparr>flag = ''--use_normals'', atype = store_true, dflt = BoolV False\<rparr>]"



text \<open>
  Modelled from the spec: the parsing library (\<^verbatim>\<open>argparse\<close>, as CPython 3.11 has it) is not
  under src/. What follows is its reading of a command line of ASCII tokens for a parser
  that declares options only. Besides the declared options the library adds the help
  option, \<^verbatim>\<open>-h\<close> and \<^verbatim>\<open>--help\<close>.
\<close>

datatype action = Help | Store argument

definition option_string_actions :: "(string \<times> action) list" where
  "option_string_actions =
     (''-h'', Help) # (''--help'', Help) # map (\<lambda>a. (flag a, Store a)) arguments"

text \<open>A token is cut at its first equals sign, when it has one.\<close>

definition partition_eq :: "string \<Rightarrow> string \<times> string option" where
  "partition_eq t =
     (if CHR ''='' \<in> set t
      then (takeWhile (\<lambda>ch. ch \<noteq> CHR ''='') t, Some (tl (dropWhile (\<lambda>ch. ch \<noteq> CHR ''='') t)))
      else (t, None))"

text \<open>
  The readings of a token that is no option string itself: a token of two dashes names
  every option string it is a prefix of, up to its equals sign; a token of one dash names
  the option string of its first two characters, the rest being attached to it, and every
  option string it is a prefix of. A reading is the action, the option string, whether an
  equals sign was cut, and the attached argument.
\<close>

definition get_option_tuples :: "string \<Rightarrow> (action \<times> string \<times> bool \<times> string option) list" where
  "get_option_tuples t =
     (if take 2 t = ''--''
      then map (\<lambda>(s, a). (a, s, snd (partition_eq t) \<noteq> None, snd (partition_eq t)))
             (filter (\<lambda>(s, a). prefix (fst (partition_eq t)) s) option_string_actions)
      else concat (map (\<lambda>(s, a). if s = take 2 t then [(a, s, False, Some (drop 2 t))]
                                   else if prefix t s then [(a, s, False, None)] else [])
                     option_string_actions))"

text \<open>A negative number: a dash and digits, or a dash, digits, a dot and digits.\<close>

definition all_digits :: "string \<Rightarrow> bool" where
  "all_digits s = list_all (\<lambda>ch. ch \<in> set ''0123456789'') s"

definition negative_core :: "string \<Rightarrow> bool" where
  "negative_core t =
     (case t of
        [] \<Rightarrow> False
      | ch # b \<Rightarrow>
          ch = CHR ''-'' \<and>
          ((b \<noteq> [] \<and> all_digits b) \<or>
           (CHR ''.'' \<in> set b \<and> all_digits (takeWhile (\<lambda>ch. ch \<noteq> CHR ''.'') b) \<and>
            tl (dropWhile (\<lambda>ch. ch \<noteq> CHR ''.'') b) \<noteq> [] \<and>
            all_digits (tl (dropWhile (\<lambda>ch. ch \<noteq> CHR ''.'') b)))))"

definition negative_number :: "string \<Rightarrow> bool" where
  "negative_number t =
     (negative_core t \<or> (t \<noteq> [] \<and> last t = CHR 0x0A \<and> negative_core (butlast t)))"

text \<open>
  How a token is read: as an argument (\<open>Positional\<close>), as an option with its action
  (none for an option the parser does not know), or as an ambiguous prefix.
\<close>

datatype parsed =
  Positional
| Optional "action option" string bool "string option"
| AmbiguousOption

definition parse_optional :: "string \<Rightarrow> parsed" where
  "parse_optional t =
     (if t = [] then Positional
      else if hd t \<noteq> CHR ''-'' then Positional
      else case map_of option_string_actions t of
        Some a \<Rightarrow> Optional (Some a) t False None
      | None \<Rightarrow>
          if length t = 1 then Positional
          else (case (case snd (partition_eq t) of
                        None \<Rightarrow> None
                      | Some e \<Rightarrow>
                          map_option (\<lambda>a. Optional (Some a) (fst (partition_eq t)) True (Some e))
                            (map_of option_string_actions (fst (partition_eq t)))) of
                  Some r \<Rightarrow> r
                | None \<Rightarrow>
                    (case get_option_tuples t of
                       [] \<Rightarrow>
                         if negative_number t then Positional
                         else if CHR '' '' \<in> set t then Positional
                         else Optional None t False None
                     | [(a, s, sep, e)] \<Rightarrow> Optional (Some a) s sep e
                     | _ # _ # _ \<Rightarrow> AmbiguousOption)))"







text \<open>A token names a declared option when it is read as that option.\<close>

definition names :: "string \<Rightarrow> argument \<Rightarrow> bool" where
  "names t a = (case parse_optional t of
                  Optional (Some (Store b)) s sep e \<Rightarrow> b = a
                | _ \<Rightarrow> False)"

subsection \<open>What a pass computes\<close>

text \<open>
  The predictions of a pass in the words of the contract: for every batch the arg-max of
  the outputs of the network, run in inference mode without gradient tracking.
\<close>

definition predictions ::
  "('p \<Rightarrow> bool \<Rightarrow> bool \<Rightarrow> cloud list \<Rightarrow> logits) \<Rightarrow> 'p \<Rightarrow> batch list \<Rightarrow> pyerror + labels list" where
  "predictions net p loader = traverse (\<lambda>b. argmax_dim2 (net p False False (fst b))) loader"

definition batch_losses ::
  "('p \<Rightarrow> bool \<Rightarrow> bool \<Rightarrow> cloud list \<Rightarrow> logits) \<Rightarrow> (logits \<Rightarrow> labels \<Rightarrow> real) \<Rightarrow> 'p \<Rightarrow> batch list
     \<Rightarrow> real list" where
  "batch_losses net criterion p loader =
     map (\<lambda>b. criterion (net p False False (fst b)) (snd b)) loader"

subsection \<open>A small pass\<close>

text \<open>
  Concrete data to run the definitions on: a network that scores class 1 of a point by
  its first coordinate and class 0 by zero, and one batch of two samples of two points.
\<close>

definition example_world :: "(unit, unit, unit) world" where
  "example_world =
     \<lparr>params = (), grads = (), opt_state = (), training = True, grad_enabled = True,
      steps = 0, rng = 0, figures = [], stdout = []\<rparr>"

definition example_net :: "unit \<Rightarrow> bool \<Rightarrow> bool \<Rightarrow> cloud list \<Rightarrow> logits" where
  "example_net p t g data = map (map (\<lambda>pt. [0, sum_list (take 1 pt)])) data"

definition example_data :: "cloud list" where
  "example_data = [[[0, 0, 0], [1, 2, 3]], [[1, 1, 0], [0, 1, 0]]]"

text \<open>A framework whose optimizer counts its updates in its state, and a state to train.\<close>

definition example_trainee :: "(unit, unit, nat) world" where
  "example_trainee =
     \<lparr>params = (), grads = (), opt_state = 0, training = True, grad_enabled = True,
      steps = 0, rng = 0, figures = [], stdout = []\<rparr>"

definition example_framework :: "(unit, unit, nat) framework" where
  "example_framework =
     \<lparr>listdir = (\<lambda>path. Inr []),
      Pointnet2dataset = (\<lambda>path names n augment split. Inr []),
      cuda_is_available = False,
      randperm = (\<lambda>seed n. rev [0..<n]),
      get_model = (\<lambda>num_class. ()),
      forward = example_net,
      get_loss = (\<lambda>out lab. 0),
      no_grads = (),
      zero_grad = (\<lambda>g. g),
      backward = (\<lambda>p data lab g. g),
      optim_init = 0,
      optim_step = (\<lambda>alg rate decay p g s. (p, Suc s))\<rparr>"

definition example_dataset :: "sample list" where
  "example_dataset =
     [([[0, 0, 0], [1, 2, 3]], [0, 1]), ([[1, 1, 0], [0, 1, 0]], [1, 0]),
      ([[2, 0, 0], [0, 0, 1]], [1, 0])]"

text \<open>A batch of uniform shape: \<open>B\<close> samples of \<open>N\<close> points, in the labels and in the outputs.\<close>

definition uniform_batch :: "nat \<Rightarrow> nat \<Rightarrow> logits \<Rightarrow> labels \<Rightarrow> bool" where
  "uniform_batch B N outputs labs =
     (length labs = B \<and> (\<forall>row \<in> set labs. length row = N) \<and> length outputs = B \<and>
      (\<forall>srow \<in> set outputs. length srow = N \<and> (\<forall>cell \<in> set srow. cell \<noteq> [])))"

section \<open>Lemmas\<close>

subsection \<open>The loop of the evaluation routine\<close>

lemma eval_batches_closed:
  "eval_batches net crit dev w loader acc =
     (case traverse (\<lambda>b. argmax_dim2 (net (params w) (training w) (grad_enabled w) (fst b))) loader of
        Inl e \<Rightarrow> Inl e
      | Inr ps \<Rightarrow>
          Inr (acc\<lparr>losses := losses acc @ map (\<lambda>b. crit (net (params w) (training w) (grad_enabled w) (fst b)) (snd b)) loader,
                   all_preds := all_preds acc @ concat ps,
                   all_labels := all_labels acc @ concat (map snd loader),
                   point_clouds := point_clouds acc @ concat (map fst loader)\<rparr>))"
proof (induction loader arbitrary: acc)
  case Nil
  show ?case by simp
next
  case (Cons b rest)
  obtain d l where b: "b = (d, l)" by (cases b)
  show ?case
    by (simp add: b Cons.IH to_device_def Let_def split: sum.splits)
qed

subsection \<open>The metrics\<close>

lemma tp_le_pred: "tp_sum cl yt yp \<le> pred_sum cl yp"
  unfolding tp_sum_def pred_sum_def
  by (induction yt yp rule: list_induct2') auto

lemma tp_le_true: "tp_sum cl yt yp \<le> true_sum cl yt"
  unfolding tp_sum_def true_sum_def
  by (induction yt yp rule: list_induct2') auto

lemma prf_divide_bounds: "n \<le> d \<Longrightarrow> 0 \<le> prf_divide n d \<and> prf_divide n d \<le> 1"
  by (simp add: prf_divide_def)

lemma sum_list_unit_bounds:
  "\<forall>v \<in> set vs. 0 \<le> v \<and> v \<le> (1::real) \<Longrightarrow> 0 \<le> sum_list vs \<and> sum_list vs \<le> real (length vs)"
  by (induction vs) auto

lemma average_bounds:
  assumes "vs \<noteq> []" and "\<forall>v \<in> set vs. 0 \<le> v \<and> v \<le> (1::real)"
  shows "\<exists>r. average vs = Score r \<and> 0 \<le> r \<and> r \<le> 1"
proof -
  have len: "0 < real (length vs)" using assms(1) by simp
  have b: "0 \<le> sum_list vs \<and> sum_list vs \<le> real (length vs)"
    using sum_list_unit_bounds [OF assms(2)] .
  have "0 \<le> sum_list vs / real (length vs)" using b len by simp
  moreover have "sum_list vs / real (length vs) \<le> 1" using b len by (simp add: divide_le_eq)
  ultimately show ?thesis using assms(1) by (simp add: average_def)
qed

lemma unique_labels_empty: "unique_labels yt yp = [] \<longleftrightarrow> yt = [] \<and> yp = []"
proof -
  have "set (unique_labels yt yp) = set yt \<union> set yp" by (simp add: unique_labels_def)
  then show ?thesis by (metis Un_empty set_empty)
qed

lemma set_unique_labels: "set (unique_labels yt yp) = set yt \<union> set yp"
  by (simp add: unique_labels_def)

lemma precision_bounds:
  assumes "length yt = length yp" and "yt \<noteq> []"
  shows "\<exists>r. precision_score yt yp = Inr (Score r) \<and> 0 \<le> r \<and> r \<le> 1"
proof -
  let ?vs = "map (\<lambda>cl. prf_divide (tp_sum cl yt yp) (pred_sum cl yp)) (unique_labels yt yp)"
  have ne: "?vs \<noteq> []" using assms(2) by (simp add: unique_labels_empty)
  have "\<forall>v \<in> set ?vs. 0 \<le> v \<and> v \<le> 1" using prf_divide_bounds [OF tp_le_pred] by auto
  from average_bounds [OF ne this] show ?thesis using assms(1) by (simp add: precision_score_def)
qed

lemma recall_bounds:
  assumes "length yt = length yp" and "yt \<noteq> []"
  shows "\<exists>r. recall_score yt yp = Inr (Score r) \<and> 0 \<le> r \<and> r \<le> 1"
proof -
  let ?vs = "map (\<lambda>cl. prf_divide (tp_sum cl yt yp) (true_sum cl yt)) (unique_labels yt yp)"
  have ne: "?vs \<noteq> []" using assms(2) by (simp add: unique_labels_empty)
  have "\<forall>v \<in> set ?vs. 0 \<le> v \<and> v \<le> 1" using prf_divide_bounds [OF tp_le_true] by auto
  from average_bounds [OF ne this] show ?thesis using assms(1) by (simp add: recall_score_def)
qed

lemma accuracy_bounds:
  assumes "length yt = length yp" and "yt \<noteq> []"
  shows "\<exists>r. accuracy_score yt yp = Inr (Score r) \<and> 0 \<le> r \<and> r \<le> 1"
proof -
  let ?vs = "map (\<lambda>(t, p). if t = p then 1 else (0::real)) (zip yt yp)"
  have "yp \<noteq> []" using assms by auto
  then have ne: "?vs \<noteq> []" using assms(2) by (cases yt; cases yp) auto
  have "\<forall>v \<in> set ?vs. 0 \<le> v \<and> v \<le> 1" by auto
  from average_bounds [OF ne this] show ?thesis using assms(1) by (simp add: accuracy_score_def)
qed

lemma sum_list_ones: "\<forall>v \<in> set vs. v = (1::real) \<Longrightarrow> sum_list vs = real (length vs)"
  by (induction vs) auto

lemma average_ones:
  assumes "vs \<noteq> []" and "\<forall>v \<in> set vs. v = 1"
  shows "average vs = Score 1"
  using assms(1) sum_list_ones [OF assms(2)] by (simp add: average_def)

lemma tp_same: "tp_sum cl ys ys = pred_sum cl ys" "true_sum cl ys = pred_sum cl ys"
  by (simp_all add: tp_sum_def pred_sum_def true_sum_def zip_same_conv_map filter_map comp_def)

lemma pred_sum_pos: "cl \<in> set ys \<Longrightarrow> 0 < pred_sum cl ys"
  by (induction ys) (auto simp: pred_sum_def)

lemma prf_divide_same: "0 < n \<Longrightarrow> prf_divide n n = 1"
  by (simp add: prf_divide_def)

lemma precision_perfect:
  assumes "ys \<noteq> []"
  shows "precision_score ys ys = Inr (Score 1)"
proof -
  let ?vs = "map (\<lambda>cl. prf_divide (tp_sum cl ys ys) (pred_sum cl ys)) (unique_labels ys ys)"
  have ne: "?vs \<noteq> []" using assms by (simp add: unique_labels_empty)
  have "\<forall>v \<in> set ?vs. v = 1"
    by (auto simp: set_unique_labels tp_same prf_divide_same pred_sum_pos)
  from average_ones [OF ne this] show ?thesis by (simp add: precision_score_def)
qed

lemma recall_perfect:
  assumes "ys \<noteq> []"
  shows "recall_score ys ys = Inr (Score 1)"
proof -
  let ?vs = "map (\<lambda>cl. prf_divide (tp_sum cl ys ys) (true_sum cl ys)) (unique_labels ys ys)"
  have ne: "?vs \<noteq> []" using assms by (simp add: unique_labels_empty)
  have "\<forall>v \<in> set ?vs. v = 1"
    by (auto simp: set_unique_labels tp_same prf_divide_same pred_sum_pos)
  from average_ones [OF ne this] show ?thesis by (simp add: recall_score_def)
qed

lemma accuracy_perfect:
  assumes "ys \<noteq> []"
  shows "accuracy_score ys ys = Inr (Score 1)"
proof -
  let ?vs = "map (\<lambda>(t, p). if t = p then 1 else (0::real)) (zip ys ys)"
  have ne: "?vs \<noteq> []" using assms by (simp add: zip_same_conv_map)
  have "\<forall>v \<in> set ?vs. v = 1" by (auto simp: zip_same_conv_map)
  from average_ones [OF ne this] show ?thesis by (simp add: accuracy_score_def)
qed

subsection \<open>The evaluation routine in closed form\<close>

lemma evaluate_model_closed:
  assumes ne: "loader \<noteq> []"
    and ps: "predictions net (params w) loader = Inr preds"
  shows "evaluate_model net crit dev w loader False =
     (let y_true = concat (concat (map snd loader));
          y_pred = concat (concat preds)
      in case precision_score y_true y_pred of
           Inl e \<Rightarrow> (Inl e, w\<lparr>training := False\<rparr>)
         | Inr precision \<Rightarrow>
        (case recall_score y_true y_pred of
           Inl e \<Rightarrow> (Inl e, w\<lparr>training := False\<rparr>)
         | Inr recall \<Rightarrow>
        (case accuracy_score y_true y_pred of
           Inl e \<Rightarrow> (Inl e, w\<lparr>training := False\<rparr>)
         | Inr accuracy \<Rightarrow>
             (Inr (sum_list (batch_losses net crit (params w) loader) / real (length loader),
                   precision, recall, accuracy),
              w\<lparr>training := False\<rparr>))))"
  using ne ps
  by (simp add: evaluate_model_def eval_batches_closed predictions_def batch_losses_def
      flatten_def Let_def split: sum.splits)

subsection \<open>Batches of uniform shape\<close>

lemma traverse_all:
  assumes "\<forall>x \<in> set xs. \<exists>y. f x = Inr y \<and> P y"
  shows "\<exists>ys. traverse f xs = Inr ys \<and> length ys = length xs \<and> (\<forall>y \<in> set ys. P y)"
  using assms
proof (induction xs)
  case Nil
  show ?case by simp
next
  case (Cons x xs)
  from Cons.prems obtain y where y: "f x = Inr y" "P y" by auto
  from Cons obtain ys where ys: "traverse f xs = Inr ys" "length ys = length xs" "\<forall>y \<in> set ys. P y"
    by auto
  show ?case using y ys by simp
qed

lemma argmax_defined: "row \<noteq> [] \<Longrightarrow> \<exists>k. argmax row = Inr k"
  by (cases row) (simp_all add: argmax_def)

lemma length_concat_uniform: "\<forall>r \<in> set rows. length r = n \<Longrightarrow> length (concat rows) = length rows * n"
  by (induction rows) auto

lemma argmax_dim2_uniform:
  assumes "\<forall>srow \<in> set outputs. length srow = N \<and> (\<forall>cell \<in> set srow. cell \<noteq> [])"
  shows "\<exists>ps. argmax_dim2 outputs = Inr ps \<and> length ps = length outputs \<and> (\<forall>r \<in> set ps. length r = N)"
proof -
  have "\<forall>srow \<in> set outputs. \<exists>r. traverse argmax srow = Inr r \<and> length r = N"
  proof
    fix srow assume s: "srow \<in> set outputs"
    then have "\<forall>cell \<in> set srow. \<exists>k. argmax cell = Inr k \<and> True"
      using assms argmax_defined by auto
    from traverse_all [OF this] s assms show "\<exists>r. traverse argmax srow = Inr r \<and> length r = N"
      by auto
  qed
  from traverse_all [OF this] show ?thesis by (simp add: argmax_dim2_def)
qed

lemma predictions_uniform:
  assumes "\<forall>b \<in> set loader. uniform_batch B N (net p t g (fst b)) (snd b)"
  shows "\<exists>pss. traverse (\<lambda>b. argmax_dim2 (net p t g (fst b))) loader = Inr pss \<and>
           length (concat (concat pss)) = length loader * (B * N)"
proof -
  have "\<forall>b \<in> set loader. \<exists>ps. argmax_dim2 (net p t g (fst b)) = Inr ps \<and>
          (length ps = B \<and> (\<forall>r \<in> set ps. length r = N))"
  proof
    fix b assume b: "b \<in> set loader"
    then have u: "uniform_batch B N (net p t g (fst b)) (snd b)" using assms by blast
    then have "\<forall>srow \<in> set (net p t g (fst b)). length srow = N \<and> (\<forall>cell \<in> set srow. cell \<noteq> [])"
      by (simp add: uniform_batch_def)
    from argmax_dim2_uniform [OF this] u
    show "\<exists>ps. argmax_dim2 (net p t g (fst b)) = Inr ps \<and> (length ps = B \<and> (\<forall>r \<in> set ps. length r = N))"
      by (auto simp: uniform_batch_def)
  qed
  from traverse_all [OF this] obtain pss where pss:
    "traverse (\<lambda>b. argmax_dim2 (net p t g (fst b))) loader = Inr pss"
    "length pss = length loader" "\<forall>ps \<in> set pss. length ps = B \<and> (\<forall>r \<in> set ps. length r = N)"
    by blast
  have "length (concat pss) = length pss * B" using pss(3) by (simp add: length_concat_uniform)
  moreover have "\<forall>r \<in> set (concat pss). length r = N" using pss(3) by auto
  ultimately have "length (concat (concat pss)) = length loader * B * N"
    using pss(2) length_concat_uniform [of "concat pss" N] by simp
  then show ?thesis using pss(1) by (simp add: mult.assoc)
qed

lemma labels_uniform:
  assumes "\<forall>b \<in> set loader. uniform_batch B N (net p t g (fst b)) (snd b)"
  shows "length (concat (concat (map snd loader))) = length loader * (B * N)"
proof -
  have "\<forall>l \<in> set (map snd loader). length l = B" using assms by (auto simp: uniform_batch_def)
  then have "length (concat (map snd loader)) = length loader * B"
    using length_concat_uniform [of "map snd loader" B] by simp
  moreover have "\<forall>r \<in> set (concat (map snd loader)). length r = N"
    using assms by (auto simp: uniform_batch_def)
  ultimately show ?thesis
    using length_concat_uniform [of "concat (map snd loader)" N] by (simp add: mult.assoc)
qed

subsection \<open>The small pass\<close>

lemma example_predictions:
  "predictions example_net () [(example_data, labs)] = Inr [[[0, 1], [1, 0]]]"
  by (simp add: predictions_def example_net_def example_data_def argmax_dim2_def argmax_def)

lemma example_pass:
  "eval_batches example_net (\<lambda>out lab. 0) cpu w [(example_data, [[0, 1], [1, 0]])]
     \<lparr>losses = [], all_labels = [], all_preds = [], point_clouds = []\<rparr>
   = Inr \<lparr>losses = [0], all_labels = [[0, 1], [1, 0]], all_preds = [[0, 1], [1, 0]],
          point_clouds = example_data\<rparr>"
  by (simp add: example_net_def example_data_def argmax_dim2_def argmax_def to_device_def)

lemma visualize_example:
  "visualize_predictions example_data [0, 1, 1, 0] [0, 1, 1, 0] = (Inl ValueError, [])"
proof -
  have "[0..<length example_data] = [0, 1]" by (simp add: example_data_def upt_rec)
  then show ?thesis
    by (simp add: visualize_predictions_def plot_sample_def ax_scatter_def example_data_def)
qed

subsection \<open>Batches and optimizer steps\<close>

lemma steps_train_step: "steps (train_step F opt dev b w) = Suc (steps w)"
  by (simp add: train_step_def Let_def)

lemma steps_train_batches: "steps (train_batches F opt dev bs w) = steps w + length bs"
  by (induction bs arbitrary: w) (simp_all add: steps_train_step)

lemma opt_state_train_step:
  "opt_state (train_step F opt dev b w) =
     snd (optim_step F (algorithm opt) (lr opt) (weight_decay opt) (params w)
            (backward F (params w) (fst b) (snd b) (zero_grad F (grads w))) (opt_state w))"
  by (simp add: train_step_def Let_def to_device_def)

lemma updates_train_batches:
  assumes "\<forall>alg rate decay p g s. updates (snd (optim_step F alg rate decay p g s)) = Suc (updates s)"
  shows "updates (opt_state (train_batches F opt dev bs w)) = updates (opt_state w) + length bs"
  using assms by (induction bs arbitrary: w) (simp_all add: opt_state_train_step)

lemma length_chunks: "0 < b \<Longrightarrow> length (chunks b xs) = (length xs + b - 1) div b"
proof (induction b xs rule: chunks.induct)
  case (1 b xs)
  show ?case
  proof (cases "xs = []")
    case True
    then show ?thesis using 1(2) by (simp add: chunks.simps [of b "[]"])
  next
    case False
    then have pos: "0 < length xs" by simp
    have ih: "length (chunks b (drop b xs)) = (length xs - b + b - 1) div b"
      using 1 False by simp
    have rest: "(length xs - b + b - 1) div b = (length xs - 1) div b"
    proof (cases "length xs \<le> b")
      case True
      then show ?thesis using pos 1(2) by simp
    next
      case False
      then show ?thesis by simp
    qed
    have eq: "length xs + b - 1 = (length xs - 1) + b" using pos by arith
    have "(length xs - 1 + b) div b = Suc ((length xs - 1) div b)"
      using 1(2) by simp
    then have total: "(length xs + b - 1) div b = Suc ((length xs - 1) div b)"
      by (simp only: eq)
    have unfold: "chunks b xs = take b xs # chunks b (drop b xs)"
      using False 1(2) by (subst chunks.simps) simp
    have "length (chunks b xs) = Suc (length (chunks b (drop b xs)))"
      by (simp only: unfold list.size length_Cons)
    also have "\<dots> = Suc ((length xs - 1) div b)" by (simp only: ih rest)
    finally show ?thesis by (simp only: total)
  qed
qed

lemma ceil_div: 
  assumes "0 < b"
  shows "nat \<lceil>real n / real b\<rceil> = (n + b - 1) div b"
proof (cases "n = 0")
  case True
  then show ?thesis using assms by simp
next
  case False
  define q where "q = (n - 1) div b"
  define r where "r = (n - 1) mod b"
  have "(n - 1) div b * b + (n - 1) mod b = n - 1" by (rule div_mult_mod_eq)
  then have n1: "q * b + r = n - 1" by (simp only: q_def r_def)
  have n: "q * b + r + 1 = n" using False n1 by arith
  have r: "r < b" using assms by (simp add: r_def)
  have eq: "n + b - 1 = (n - 1) + b" using False by arith
  have "((n - 1) + b) div b = Suc ((n - 1) div b)" using assms by simp
  then have d: "(n + b - 1) div b = Suc q" by (simp only: eq q_def)
  have bpos: "0 < real b" using assms by simp
  have "real (q * b + r + 1) = real n" by (simp only: n)
  then have rn: "real n = real q * real b + real r + 1" by simp
  have "real (Suc r) \<le> real b" using r by (simp only: of_nat_le_iff Suc_le_eq)
  then have rb: "real r + 1 \<le> real b" by simp
  have le: "real n \<le> (real q + 1) * real b" using rn rb by (simp add: algebra_simps)
  have gt: "real q * real b < real n" using rn by simp
  have "\<lceil>real n / real b\<rceil> = int q + 1"
  proof (rule ceiling_unique)
    show "of_int (int q + 1) - 1 < real n / real b" using gt bpos by (simp add: pos_less_divide_eq)
    show "real n / real b \<le> of_int (int q + 1)" using le bpos by (simp add: pos_divide_le_eq)
  qed
  then have "nat \<lceil>real n / real b\<rceil> = Suc q" by simp
  then show ?thesis by (simp only: d)
qed

lemma traverse_index_dataset:
  "\<forall>i \<in> set order. i < length ds \<Longrightarrow> traverse (index_dataset ds) order = Inr (map ((!) ds) order)"
  by (induction order) (simp_all add: index_dataset_def)

subsection \<open>The command line\<close>































section \<open>The claims\<close>

text \<open>
  C1, as the code has it: on a batch source that yields at least one batch, for which the
  arg-max is defined at every point and gives as many predictions as there are labels,
  \<open>evaluate_model\<close> leaves the network in inference mode, runs every forward pass in
  inference mode with gradient tracking off, and returns exactly four values: the mean of
  the per-batch losses and the macro precision, the macro recall and the accuracy of the
  flattened arg-max predictions against the flattened labels of all batches.
\<close>

theorem evaluate_model_contract:
  assumes "loader \<noteq> []"
    and "predictions net (params w) loader = Inr preds"
    and "length (concat (concat preds)) = length (concat (concat (map snd loader)))"
  shows "\<exists>precision recall accuracy.
           precision_score (concat (concat (map snd loader))) (concat (concat preds)) = Inr precision \<and>
           recall_score (concat (concat (map snd loader))) (concat (concat preds)) = Inr recall \<and>
           accuracy_score (concat (concat (map snd loader))) (concat (concat preds)) = Inr accuracy \<and>
           evaluate_model net crit dev w loader False =
             (Inr (sum_list (batch_losses net crit (params w) loader) / real (length loader),
                   precision, recall, accuracy),
              w\<lparr>training := False\<rparr>)"
proof -
  let ?t = "concat (concat (map snd loader))" and ?p = "concat (concat preds)"
  have len: "length ?t = length ?p" using assms(3) by simp
  obtain pr where pr: "precision_score ?t ?p = Inr pr" using len by (simp add: precision_score_def)
  obtain re where re: "recall_score ?t ?p = Inr re" using len by (simp add: recall_score_def)
  obtain ac where ac: "accuracy_score ?t ?p = Inr ac" using len by (simp add: accuracy_score_def)
  show ?thesis
    using evaluate_model_closed [OF assms(1) assms(2), of crit dev] pr re ac by (simp add: Let_def)
qed

theorem evaluate_model_contract_witness:
  "[(example_data, [[0, 1], [1, 0]])] \<noteq> [] \<and>
   predictions example_net (params example_world) [(example_data, [[0, 1], [1, 0]])]
     = Inr [[[0, 1], [1, 0]]] \<and>
   evaluate_model example_net (\<lambda>out lab. 1 / 2) cpu example_world
       [(example_data, [[0, 1], [1, 0]])] False =
     (Inr (1 / 2, Score 1, Score 1, Score 1), example_world\<lparr>training := False\<rparr>)"
proof -
  have p: "predictions example_net (params example_world) [(example_data, [[0, 1], [1, 0]])]
             = Inr [[[0, 1], [1, 0]]]"
    by (simp add: example_predictions example_world_def)
  have m: "precision_score [0, 1, 1, 0] [0, 1, 1, 0] = Inr (Score 1)"
    "recall_score [0, 1, 1, 0] [0, 1, 1, 0] = Inr (Score 1)"
    "accuracy_score [0, 1, 1, 0] [0, 1, 1, 0] = Inr (Score 1)"
    by (simp_all add: precision_perfect recall_perfect accuracy_perfect)
  show ?thesis
    using evaluate_model_contract [of "[(example_data, [[0, 1], [1, 0]])]" example_net example_world
        "[[[0, 1], [1, 0]]]" "\<lambda>out lab. 1 / 2" cpu] p m
    by (simp add: batch_losses_def)
qed

text \<open>
  C1 as stated covers every batch source. On the source without batches no value is
  returned: the mean of no loss divides by zero.
\<close>

theorem evaluate_model_empty_counterexample:
  "fst (evaluate_model example_net (\<lambda>out lab. 0) cpu example_world [] False)
     = Inl ZeroDivisionError"
  by (simp add: evaluate_model_def)

text \<open>
  C2: on a batch source that yields no batch, \<open>evaluate_model\<close> raises the division by
  zero of the mean loss and returns no metric.
\<close>

theorem evaluate_model_empty_raises:
  "fst (evaluate_model net criterion dev w [] visualize) = Inl ZeroDivisionError"
  by (simp add: evaluate_model_def)

text \<open>
  C3, evaluated: with the flag set, \<open>evaluate_model\<close> hands the flattened label lists to
  the visualisation, so the colour argument for cloud \<open>i\<close> is the \<open>i\<close>-th flattened
  label, one integer, not the labels of sample \<open>i\<close>. In the pass below the two samples
  have two points each, labelled \<open>[0, 1]\<close> and \<open>[1, 0]\<close> and predicted so: the first
  scatter call is refused, no figure is shown and no value is returned.
\<close>

theorem visualize_flattened_labels_refused:
  "evaluate_model example_net (\<lambda>out lab. 0) cpu example_world
     [(example_data, [[0, 1], [1, 0]])] True
   = (Inl ValueError, example_world\<lparr>training := False\<rparr>)"
proof -
  have flat: "flatten [[0, 1], [1, 0 :: int]] = [0, 1, 1, 0]" by (simp add: flatten_def)
  have m: "precision_score [0, 1, 1, 0] [0, 1, 1, 0] = Inr (Score 1)"
    "recall_score [0, 1, 1, 0] [0, 1, 1, 0] = Inr (Score 1)"
    "accuracy_score [0, 1, 1, 0] [0, 1, 1, 0] = Inr (Score 1)"
    by (simp_all add: precision_perfect recall_perfect accuracy_perfect)
  show ?thesis
    by (simp add: evaluate_model_def example_pass flat m visualize_example example_world_def
        Let_def del: eval_batches.simps)
qed

text \<open>
  C4: a pass with at least one label whose flattened predictions equal its flattened labels
  returns macro precision 1, macro recall 1 and accuracy 1.
\<close>

theorem perfect_predictions_score_one:
  assumes "predictions net (params w) loader = Inr preds"
    and "concat (concat preds) = concat (concat (map snd loader))"
    and "concat (concat (map snd loader)) \<noteq> []"
  shows "\<exists>avg_loss. fst (evaluate_model net crit dev w loader False)
           = Inr (avg_loss, Score 1, Score 1, Score 1)"
proof -
  have ne: "loader \<noteq> []" using assms(3) by auto
  show ?thesis
    using evaluate_model_closed [OF ne assms(1), of crit dev] assms(2) assms(3)
    by (simp add: Let_def precision_perfect recall_perfect accuracy_perfect)
qed

theorem perfect_predictions_score_one_witness:
  "predictions example_net (params example_world) [(example_data, [[0, 1], [1, 0]])]
     = Inr [[[0, 1], [1, 0]]] \<and>
   concat (concat [[[0, 1], [1, 0 :: int]]]) = concat (concat (map snd [(example_data, [[0, 1], [1, 0]])])) \<and>
   concat (concat (map snd [(example_data, [[0, 1], [1, 0 :: int]])])) \<noteq> [] \<and>
   (\<exists>avg_loss. fst (evaluate_model example_net (\<lambda>out lab. 3) cuda example_world
       [(example_data, [[0, 1], [1, 0]])] False) = Inr (avg_loss, Score 1, Score 1, Score 1))"
proof -
  have p: "predictions example_net (params example_world) [(example_data, [[0, 1], [1, 0]])]
             = Inr [[[0, 1], [1, 0]]]"
    by (simp add: example_predictions example_world_def)
  show ?thesis
    using perfect_predictions_score_one [of example_net example_world
        "[(example_data, [[0, 1], [1, 0]])]" "[[[0, 1], [1, 0]]]" "\<lambda>out lab. 3" cuda] p
    by simp
qed

text \<open>
  C5: one training epoch over a loader of \<open>N\<close> samples with batch size \<open>B\<close> takes
  \<open>ceil (N / B)\<close> optimizer steps, one per batch, the shuffled order being a
  permutation of the indices of the dataset: whatever an update of the optimizer adds
  one to in the optimizer state has grown by \<open>ceil (N / B)\<close> after the epoch.
\<close>

theorem one_epoch_optimizer_steps:
  assumes "DataLoader ds B True = Inr ld"
    and "distinct (randperm F (rng w) (length ds))"
    and "set (randperm F (rng w) (length ds)) = {0..<length ds}"
    and "\<forall>alg rate decay p g s. updates (snd (optim_step F alg rate decay p g s)) = Suc (updates s)"
  shows "\<exists>w'. train_one_epoch F opt dev ld w = (Inr (), w') \<and>
              updates (opt_state w')
                = updates (opt_state w) + nat \<lceil>real (length ds) / real_of_int B\<rceil> \<and>
              steps w' = steps w + nat \<lceil>real (length ds) / real_of_int B\<rceil>"
proof -
  from assms(1) have B: "0 < B" and ld: "ld = \<lparr>dataset = ds, bsize = nat B, shuffle = True\<rparr>"
    by (auto simp: DataLoader_def split: if_splits)
  let ?order = "randperm F (rng w) (length ds)"
  let ?batches = "map collate (chunks (nat B) (map ((!) ds) ?order))"
  let ?w1 = "w\<lparr>training := True, rng := Suc (rng w)\<rparr>"
  have "length ?order = card (set ?order)" using assms(2) by (simp add: distinct_card)
  then have len: "length ?order = length ds" by (simp only: assms(3) card_atLeastLessThan diff_zero)
  have "\<forall>i \<in> set ?order. i < length ds" by (simp only: assms(3)) simp
  then have tr: "traverse (index_dataset ds) ?order = Inr (map ((!) ds) ?order)"
    by (rule traverse_index_dataset)
  have it: "iterate (randperm F) ld (rng w) = Inr ?batches"
    by (simp add: iterate_def ld Let_def tr)
  have bpos: "0 < nat B" using B by simp
  have "length ?batches = (length ds + nat B - 1) div nat B"
    using length_chunks [OF bpos, of "map ((!) ds) ?order"] len by simp
  also have "\<dots> = nat \<lceil>real (length ds) / real (nat B)\<rceil>"
    using ceil_div [OF bpos, of "length ds"] by simp
  also have "real (nat B) = real_of_int B" using B by simp
  finally have nb: "length ?batches = nat \<lceil>real (length ds) / real_of_int B\<rceil>" .
  have run: "train_one_epoch F opt dev ld w = (Inr (), train_batches F opt dev ?batches ?w1)"
    using it by (simp add: train_one_epoch_def draw_def ld)
  have "steps (train_batches F opt dev ?batches ?w1) = steps ?w1 + length ?batches"
    by (rule steps_train_batches)
  then have s: "steps (train_batches F opt dev ?batches ?w1)
          = steps w + nat \<lceil>real (length ds) / real_of_int B\<rceil>"
    using nb by simp
  have "updates (opt_state (train_batches F opt dev ?batches ?w1))
          = updates (opt_state ?w1) + length ?batches"
    using assms(4) by (rule updates_train_batches)
  then have u: "updates (opt_state (train_batches F opt dev ?batches ?w1))
          = updates (opt_state w) + nat \<lceil>real (length ds) / real_of_int B\<rceil>"
    using nb by simp
  from run s u show ?thesis by blast
qed

theorem one_epoch_optimizer_steps_witness:
  "DataLoader example_dataset 2 True
     = Inr \<lparr>dataset = example_dataset, bsize = 2, shuffle = True\<rparr> \<and>
   distinct (randperm example_framework (rng example_trainee) (length example_dataset)) \<and>
   set (randperm example_framework (rng example_trainee) (length example_dataset))
     = {0..<length example_dataset} \<and>
   snd (optim_step example_framework Adam (1 / 1000) 0 () () 5) = Suc 5 \<and>
   (\<exists>w'. train_one_epoch example_framework \<lparr>algorithm = Adam, lr = 1 / 1000, weight_decay = 0\<rparr>
            cpu \<lparr>dataset = example_dataset, bsize = 2, shuffle = True\<rparr> example_trainee
          = (Inr (), w') \<and>
         opt_state w' = 2 \<and> steps w' = 2)"
proof -
  have d: "DataLoader example_dataset 2 True
     = Inr \<lparr>dataset = example_dataset, bsize = 2, shuffle = True\<rparr>"
    by (simp add: DataLoader_def example_dataset_def)
  have p: "distinct (randperm example_framework (rng example_trainee) (length example_dataset))"
    "set (randperm example_framework (rng example_trainee) (length example_dataset))
       = {0..<length example_dataset}"
    by (simp_all add: example_framework_def)
  have o: "\<forall>alg rate decay p g s.
             id (snd (optim_step example_framework alg rate decay p g s)) = Suc (id s)"
    by (simp add: example_framework_def)
  have o5: "snd (optim_step example_framework Adam (1 / 1000) 0 () () 5) = Suc 5"
    by (simp add: example_framework_def)
  have c: "nat \<lceil>real (length example_dataset) / real_of_int 2\<rceil> = 2"
    by (simp add: example_dataset_def)
  have s: "steps example_trainee = 0" "opt_state example_trainee = 0"
    by (simp_all add: example_trainee_def)
  obtain w' where
    "train_one_epoch example_framework \<lparr>algorithm = Adam, lr = 1 / 1000, weight_decay = 0\<rparr>
       cpu \<lparr>dataset = example_dataset, bsize = 2, shuffle = True\<rparr> example_trainee = (Inr (), w')"
    "id (opt_state w')
       = id (opt_state example_trainee) + nat \<lceil>real (length example_dataset) / real_of_int 2\<rceil>"
    "steps w' = steps example_trainee + nat \<lceil>real (length example_dataset) / real_of_int 2\<rceil>"
    using one_epoch_optimizer_steps
            [OF d p o, of "\<lparr>algorithm = Adam, lr = 1 / 1000, weight_decay = 0\<rparr>" cpu]
    by blast
  then have "\<exists>w'. train_one_epoch example_framework
                  \<lparr>algorithm = Adam, lr = 1 / 1000, weight_decay = 0\<rparr> cpu
                  \<lparr>dataset = example_dataset, bsize = 2, shuffle = True\<rparr> example_trainee
                = (Inr (), w') \<and> opt_state w' = 2 \<and> steps w' = 2"
    by (simp only: c s id_apply) simp
  with d p o5 show ?thesis by blast
qed

text \<open>
  C6: flattening keeps the element count. After a pass over batches of uniform shape
  (\<open>B\<close> samples of \<open>N\<close> points each) the loop of \<open>evaluate_model\<close> has succeeded, and
  the flattened labels and the flattened predictions each hold the number of batches
  times \<open>B * N\<close> elements.
\<close>

theorem flatten_preserves_count:
  assumes "\<forall>b \<in> set loader.
             uniform_batch B N (net (params w) (training w) (grad_enabled w) (fst b)) (snd b)"
  shows "\<exists>acc. eval_batches net crit dev w loader
                 \<lparr>losses = [], all_labels = [], all_preds = [], point_clouds = []\<rparr> = Inr acc \<and>
               length (flatten (all_labels acc)) = length loader * (B * N) \<and>
               length (flatten (all_preds acc)) = length loader * (B * N)"
proof -
  from predictions_uniform
         [where net = net and p = "params w" and t = "training w" and g = "grad_enabled w",
          OF assms]
  obtain pss where
    "traverse (\<lambda>b. argmax_dim2 (net (params w) (training w) (grad_enabled w) (fst b))) loader = Inr pss"
    "length (concat (concat pss)) = length loader * (B * N)" by blast
  then show ?thesis
    using labels_uniform
            [where net = net and p = "params w" and t = "training w" and g = "grad_enabled w",
             OF assms]
    by (simp add: eval_batches_closed flatten_def)
qed

theorem flatten_preserves_count_witness:
  "uniform_batch 2 2
     (example_net (params example_world) (training example_world)
        (grad_enabled example_world) example_data) [[0, 1], [1, 0]] \<and>
   (\<exists>acc. eval_batches example_net (\<lambda>out lab. 0) cpu example_world
             [(example_data, [[0, 1], [1, 0]])]
             \<lparr>losses = [], all_labels = [], all_preds = [], point_clouds = []\<rparr> = Inr acc \<and>
          length (flatten (all_labels acc)) = 4 \<and> length (flatten (all_preds acc)) = 4)"
proof -
  have u1: "uniform_batch 2 2
     (example_net (params example_world) (training example_world)
        (grad_enabled example_world) example_data) [[0, 1], [1, 0]]"
    by (simp add: uniform_batch_def example_net_def example_data_def)
  then have u: "\<forall>b \<in> set [(example_data, [[0, 1], [1, 0 :: int]])].
      uniform_batch 2 2
        (example_net (params example_world) (training example_world)
           (grad_enabled example_world) (fst b)) (snd b)"
    by simp
  have "\<exists>acc. eval_batches example_net (\<lambda>out lab. 0) cpu example_world
             [(example_data, [[0, 1], [1, 0]])]
             \<lparr>losses = [], all_labels = [], all_preds = [], point_clouds = []\<rparr> = Inr acc \<and>
          length (flatten (all_labels acc)) = length [(example_data, [[0, 1], [1, 0 :: int]])] * (2 * 2) \<and>
          length (flatten (all_preds acc)) = length [(example_data, [[0, 1], [1, 0 :: int]])] * (2 * 2)"
    using flatten_preserves_count
            [where net = example_net and w = example_world and B = 2 and N = 2
               and loader = "[(example_data, [[0, 1], [1, 0]])]" and crit = "\<lambda>out lab. 0"
               and dev = cpu, OF u] .
  then obtain acc where "eval_batches example_net (\<lambda>out lab. 0) cpu example_world
             [(example_data, [[0, 1], [1, 0]])]
             \<lparr>losses = [], all_labels = [], all_preds = [], point_clouds = []\<rparr> = Inr acc"
     "length (flatten (all_labels acc)) = 4" "length (flatten (all_preds acc)) = 4"
    by auto
  then show ?thesis using u1 by blast
qed

text \<open>
  C7, as the code has it: on a non-empty batch source with at least one labelled point,
  for which the arg-max is defined at every point and gives as many predictions as there
  are labels, \<open>evaluate_model\<close> returns four reals; precision, recall and accuracy lie in
  \<open>[0, 1]\<close>, and the loss is not negative when the loss function is not negative on
  the batches of the pass.
\<close>

theorem evaluate_model_ranges:
  assumes "loader \<noteq> []"
    and "predictions net (params w) loader = Inr preds"
    and "length (concat (concat preds)) = length (concat (concat (map snd loader)))"
    and "concat (concat (map snd loader)) \<noteq> []"
  shows "\<exists>loss p r a.
           fst (evaluate_model net crit dev w loader False) = Inr (loss, Score p, Score r, Score a) \<and>
           0 \<le> p \<and> p \<le> 1 \<and> 0 \<le> r \<and> r \<le> 1 \<and> 0 \<le> a \<and> a \<le> 1 \<and>
           ((\<forall>b \<in> set loader. 0 \<le> crit (net (params w) False False (fst b)) (snd b))
              \<longrightarrow> 0 \<le> loss)"
proof -
  let ?t = "concat (concat (map snd loader))" and ?p = "concat (concat preds)"
  have len: "length ?t = length ?p" using assms(3) by simp
  obtain p where p: "precision_score ?t ?p = Inr (Score p)" "0 \<le> p" "p \<le> 1"
    using precision_bounds [OF len assms(4)] by blast
  obtain r where r: "recall_score ?t ?p = Inr (Score r)" "0 \<le> r" "r \<le> 1"
    using recall_bounds [OF len assms(4)] by blast
  obtain a where a: "accuracy_score ?t ?p = Inr (Score a)" "0 \<le> a" "a \<le> 1"
    using accuracy_bounds [OF len assms(4)] by blast
  let ?loss = "sum_list (batch_losses net crit (params w) loader) / real (length loader)"
  have ev: "fst (evaluate_model net crit dev w loader False) = Inr (?loss, Score p, Score r, Score a)"
    using evaluate_model_closed [OF assms(1) assms(2), of crit dev] p(1) r(1) a(1)
    by (simp add: Let_def)
  have "0 \<le> ?loss" if "\<forall>b \<in> set loader. 0 \<le> crit (net (params w) False False (fst b)) (snd b)"
  proof -
    have "0 \<le> sum_list (batch_losses net crit (params w) loader)"
      using that by (auto simp: batch_losses_def intro!: sum_list_nonneg)
    then show ?thesis by simp
  qed
  then show ?thesis using ev p r a by blast
qed

theorem evaluate_model_ranges_witness:
  "[(example_data, [[0, 1], [1, 1]])] \<noteq> [] \<and>
   predictions example_net (params example_world) [(example_data, [[0, 1], [1, 1]])]
     = Inr [[[0, 1], [1, 0]]] \<and>
   concat (concat (map snd [(example_data, [[0, 1], [1, 1 :: int]])])) \<noteq> [] \<and>
   (0 :: real) \<le> (\<lambda>out lab. 2)
      (example_net (params example_world) False False example_data) [[0, 1], [1, 1 :: int]] \<and>
   (\<exists>loss p r a.
      fst (evaluate_model example_net (\<lambda>out lab. 2) cpu example_world
             [(example_data, [[0, 1], [1, 1]])] False) = Inr (loss, Score p, Score r, Score a) \<and>
      0 \<le> p \<and> p \<le> 1 \<and> 0 \<le> r \<and> r \<le> 1 \<and> 0 \<le> a \<and> a \<le> 1 \<and> 0 \<le> loss)"
proof -
  have p: "predictions example_net (params example_world) [(example_data, [[0, 1], [1, 1]])]
             = Inr [[[0, 1], [1, 0]]]"
    by (simp add: example_predictions example_world_def)
  show ?thesis
    using evaluate_model_ranges [of "[(example_data, [[0, 1], [1, 1]])]" example_net example_world
        "[[[0, 1], [1, 0]]]" "\<lambda>out lab. 2" cpu] p
    by simp
qed

text \<open>
  C7 as stated promises a loss that is not negative on every non-empty batch source. The
  mean is the mean of what the loss function returns: with a loss function that returns
  \<open>- 1\<close> the returned loss is \<open>- 1\<close>.
\<close>

theorem negative_loss_counterexample:
  "fst (evaluate_model example_net (\<lambda>out lab. - 1) cpu example_world
          [(example_data, [[0, 1], [1, 0]])] False) = Inr (- 1, Score 1, Score 1, Score 1) \<and>
   \<not> (0 :: real) \<le> - 1"
proof -
  have p: "predictions example_net (params example_world) [(example_data, [[0, 1], [1, 0]])]
             = Inr [[[0, 1], [1, 0]]]"
    by (simp add: example_predictions example_world_def)
  have ne: "[(example_data, [[0, 1], [1, 0 :: int]])] \<noteq> []" by simp
  show ?thesis
    using evaluate_model_closed [OF ne p, of "\<lambda>out lab. - 1" cpu]
    by (simp add: Let_def precision_perfect recall_perfect accuracy_perfect batch_losses_def)
qed




text \<open>
  C9: \<open>main\<close> does not depend on the settings \<^verbatim>\<open>gpu\<close>, \<^verbatim>\<open>model\<close>, \<^verbatim>\<open>optimizer\<close>,
  \<^verbatim>\<open>log_dir\<close> and \<^verbatim>\<open>use_normals\<close>: changing them changes neither its outcome nor the
  state it ends in, and the optimizer it builds is Adam with the learning rate and the
  decay rate of the settings.
\<close>

theorem main_ignores_unused_settings:
  "main F (a\<lparr>gpu := g, model := m, optimizer := opt, log_dir := l, use_normals := u\<rparr>) = main F a \<and>
   main_optimizer (a\<lparr>gpu := g, model := m, optimizer := opt, log_dir := l, use_normals := u\<rparr>)
     = \<lparr>algorithm = Adam, lr = learning_rate a, weight_decay = decay_rate a\<rparr>"
proof -
  let ?a = "a\<lparr>gpu := g, model := m, optimizer := opt, log_dir := l, use_normals := u\<rparr>"
  have sel: "num_points ?a = num_points a" "batch_size ?a = batch_size a"
    "use_cpu ?a = use_cpu a" "epoch ?a = epoch a" "learning_rate ?a = learning_rate a"
    "decay_rate ?a = decay_rate a"
    by simp_all
  show ?thesis
    unfolding main_def main_optimizer_def sel by (rule conjI; rule refl)
qed

text \<open>
  C10: \<open>evaluate_model\<close> leaves the parameters of the network as they were, whatever
  the network, the batch source, the device, the loss and the flag, and whether it
  returns or raises; it takes no optimizer step and leaves the optimizer state alone.
\<close>

theorem evaluate_model_keeps_parameters:
  "params (snd (evaluate_model net crit dev w loader visualize)) = params w \<and>
   opt_state (snd (evaluate_model net crit dev w loader visualize)) = opt_state w \<and>
   steps (snd (evaluate_model net crit dev w loader visualize)) = steps w"
  by (simp add: evaluate_model_def Let_def split: sum.splits prod.splits)

end
